theory Spec2Isabelle
  imports Main
begin

section \<open>The video service: data model\<close>

text \<open>
  The program is an Express application with five routes over one GridFS bucket
  (\<^verbatim>\<open>videos\<close>): POST /upload, GET /videos, GET /video/:id, PUT /video/:id and
  DELETE /video/:id. Each route handler is embedded as a function from the state of the
  bucket and the request to the response and the new state of the bucket. An exception
  (a throw, or a rejected promise under \<^verbatim>\<open>await\<close>) is a value \<open>Inl message\<close>, and the
  \<^verbatim>\<open>catch\<close> block of the handler is the branch that consumes it.
\<close>

subsection \<open>JavaScript values\<close>

text \<open>An identifier is the 12-byte value of a BSON ObjectId, kept as its number.\<close>

datatype oid = Oid nat

datatype jsv =
    Undefined
  | Str string
  | Num int
  | ObjId oid
  | Date nat
  | Obj "(string \<times> jsv) list"
  | Arr "jsv list"

text \<open>
  The numbers of the program are IEEE doubles. A double holds every integer up to
  \<open>2 ^ 53\<close> exactly, and the model computes with \<open>int\<close>: it agrees with the program
  as long as the numbers stay in that range, which \<open>safe_integer\<close> says.
\<close>

definition MAX_SAFE_INTEGER :: int where
  "MAX_SAFE_INTEGER = 2 ^ 53 - 1"

definition safe_integer :: "int \<Rightarrow> bool" where
  "safe_integer n = (- MAX_SAFE_INTEGER \<le> n \<and> n \<le> MAX_SAFE_INTEGER)"

definition is_digit :: "char \<Rightarrow> bool" where
  "is_digit c = (c \<in> set ''0123456789'')"

definition digit_val :: "char \<Rightarrow> nat" where
  "digit_val c = of_char c - 48"

text \<open>\<^verbatim>\<open>s.replace(/\D/g, "")\<close>: every character that is not a decimal digit is removed.\<close>

definition strip_non_digits :: "string \<Rightarrow> string" where
  "strip_non_digits s = filter is_digit s"

text \<open>
  \<^verbatim>\<open>Number(s)\<close> on a string of decimal digits: its decimal value, and 0 for the empty
  string.
\<close>

definition Number_of_digits :: "string \<Rightarrow> int" where
  "Number_of_digits ds = int (foldl (\<lambda>n c. 10 * n + digit_val c) 0 ds)"

fun decimal :: "nat \<Rightarrow> string" where
  "decimal n =
     (if n < 10 then [''0123456789'' ! n]
      else decimal (n div 10) @ [''0123456789'' ! (n mod 10)])"

text \<open>The text of an integer in a template literal.\<close>

definition String_of_int :: "int \<Rightarrow> string" where
  "String_of_int i = (if i < 0 then ''-'' @ decimal (nat (- i)) else decimal (nat i))"

text \<open>A string is falsy exactly when it is absent or empty.\<close>

definition truthy :: "string option \<Rightarrow> bool" where
  "truthy s = (case s of None \<Rightarrow> False | Some v \<Rightarrow> v \<noteq> [])"

text \<open>The characters of a string that is present (those of a truthy one, where it is used).\<close>

definition str_value :: "string option \<Rightarrow> string" where
  "str_value s = (case s of None \<Rightarrow> [] | Some v \<Rightarrow> v)"

subsection \<open>Identifiers\<close>

definition hex_table :: "(char \<times> nat) list" where
  "hex_table =
     [(CHR ''0'', 0), (CHR ''1'', 1), (CHR ''2'', 2), (CHR ''3'', 3), (CHR ''4'', 4),
      (CHR ''5'', 5), (CHR ''6'', 6), (CHR ''7'', 7), (CHR ''8'', 8), (CHR ''9'', 9),
      (CHR ''a'', 10), (CHR ''b'', 11), (CHR ''c'', 12), (CHR ''d'', 13), (CHR ''e'', 14),
      (CHR ''f'', 15), (CHR ''A'', 10), (CHR ''B'', 11), (CHR ''C'', 12), (CHR ''D'', 13),
      (CHR ''E'', 14), (CHR ''F'', 15)]"

definition is_hex :: "char \<Rightarrow> bool" where
  "is_hex c = (c \<in> set (map fst hex_table))"

definition hex_val :: "char \<Rightarrow> nat" where
  "hex_val c = (case map_of hex_table c of None \<Rightarrow> 0 | Some v \<Rightarrow> v)"

definition well_formed_id :: "string \<Rightarrow> bool" where
  "well_formed_id s = (length s = 24 \<and> list_all is_hex s)"

text \<open>
  The constructor \<^verbatim>\<open>mongoose.Types.ObjectId\<close> belongs to the BSON library, which is not
  part of the repository, so the handlers below take the constructor as their first
  argument. \<open>ObjectId\<close> is the constructor that accepts a string of 24 hexadecimal
  characters and throws on every other string.
\<close>

definition ObjectId :: "string \<Rightarrow> string + oid" where
  "ObjectId s =
     (if well_formed_id s then Inr (Oid (foldl (\<lambda>n c. 16 * n + hex_val c) 0 s))
      else Inl ''input must be a 24 character hex string, 12 byte Uint8Array, or an integer'')"

text \<open>The text of an identifier: 24 lower-case hexadecimal characters.\<close>

fun toHexString :: "oid \<Rightarrow> string" where
  "toHexString (Oid n) =
     map (\<lambda>i. ''0123456789abcdef'' ! ((n div 16 ^ (23 - i)) mod 16)) [0..<24]"

subsection \<open>The bucket\<close>

text \<open>
  A document of \<^verbatim>\<open>videos.files\<close> and a document of \<^verbatim>\<open>videos.chunks\<close>. Every file of
  the bucket is written by the two upload paths below, which always store the title
  under \<^verbatim>\<open>metadata.title\<close> and never a content type.
\<close>

record file_doc =
  file_id :: oid
  filename :: string
  flength :: nat
  chunkSizeBytes :: nat
  uploadDate :: nat
  metadata_title :: string
  contentType :: "string option"

record chunk_doc =
  files_id :: oid
  seq_n :: nat
  chunk_data :: "nat list"

text \<open>
  The bucket and the collection of its files belong to the MongoDB driver, which is not
  part of the repository. They are modelled as far as the handlers rely on them: a query
  returns the matching documents, an update sets the title of the matching document, a
  deletion removes a file with its chunks, an upload stream adds a file with its chunks
  under a new identifier. Each call can also fail, as the environment decides.

  The calls a handler makes on the bucket and on the collection of its files:
\<close>

datatype call =
    Find_all
  | Find_id oid
  | UpdateOne oid string
  | Delete oid
  | OpenUploadStream string string
  | OpenDownloadStream oid int int

text \<open>
  The state of the store as the handlers see it. \<open>connected\<close> says that the
  \<^verbatim>\<open>open\<close> event has fired, so that \<^verbatim>\<open>gridFSBucket\<close> is defined; \<open>fault\<close> is the
  environment: the calls the store fails, each with the message of its error;
  \<open>next_id\<close> and \<open>clock\<close> give the identifier and the date of the next file written;
  \<open>calls\<close> is the trace of the calls made so far.
\<close>

record db =
  connected :: bool
  files :: "file_doc list"
  chunks :: "chunk_doc list"
  fault :: "call \<Rightarrow> string option"
  next_id :: nat
  clock :: nat
  calls :: "call list"

definition record_call :: "call \<Rightarrow> db \<Rightarrow> db" where
  "record_call c d = d\<lparr>calls := calls d @ [c]\<rparr>"

text \<open>Reading a property of \<^verbatim>\<open>gridFSBucket\<close> while it is still undefined.\<close>

definition quoted :: "string \<Rightarrow> string" where
  "quoted m = [CHR 0x27] @ m @ [CHR 0x27]"

definition undefined_bucket :: "string \<Rightarrow> string" where
  "undefined_bucket m =
     ''Cannot read properties of undefined (reading '' @ quoted m @ '')''"

text \<open>\<^verbatim>\<open>await gridFSBucket.find().toArray()\<close>\<close>

definition find_all :: "db \<Rightarrow> (string + file_doc list) \<times> db" where
  "find_all d =
     (if \<not> connected d then (Inl (undefined_bucket ''find''), d)
      else let d' = record_call Find_all d in
        case fault d Find_all of
          Some m \<Rightarrow> (Inl m, d')
        | None \<Rightarrow> (Inr (files d), d'))"

text \<open>\<^verbatim>\<open>await gridFSBucket.find({ _id: fileId }).toArray()\<close>\<close>

definition find_id :: "oid \<Rightarrow> db \<Rightarrow> (string + file_doc list) \<times> db" where
  "find_id i d =
     (if \<not> connected d then (Inl (undefined_bucket ''find''), d)
      else let d' = record_call (Find_id i) d in
        case fault d (Find_id i) of
          Some m \<Rightarrow> (Inl m, d')
        | None \<Rightarrow> (Inr (filter (\<lambda>f. file_id f = i) (files d)), d'))"

text \<open>
  \<^verbatim>\<open>await conn.db.collection("videos.files").updateOne({ _id }, { $set: { "metadata.title": t } })\<close>
\<close>

definition updateOne :: "oid \<Rightarrow> string \<Rightarrow> db \<Rightarrow> (string + unit) \<times> db" where
  "updateOne i t d =
     (if \<not> connected d then (Inl (undefined_bucket ''collection''), d)
      else let d' = record_call (UpdateOne i t) d in
        case fault d (UpdateOne i t) of
          Some m \<Rightarrow> (Inl m, d')
        | None \<Rightarrow>
            (Inr (),
             d'\<lparr>files := map (\<lambda>f. if file_id f = i then f\<lparr>metadata_title := t\<rparr> else f)
                            (files d)\<rparr>))"

text \<open>
  \<^verbatim>\<open>await gridFSBucket.delete(fileId)\<close>: the document of the file and all its chunks go
  (identifiers are unique in the collection, so at most one document goes); the promise
  is rejected when no document had the identifier.
\<close>

definition delete_file :: "oid \<Rightarrow> db \<Rightarrow> (string + unit) \<times> db" where
  "delete_file i d =
     (if \<not> connected d then (Inl (undefined_bucket ''delete''), d)
      else let d' = record_call (Delete i) d in
        case fault d (Delete i) of
          Some m \<Rightarrow> (Inl m, d')
        | None \<Rightarrow>
            let d'' = d'\<lparr>files := filter (\<lambda>f. file_id f \<noteq> i) (files d),
                         chunks := filter (\<lambda>c. files_id c \<noteq> i) (chunks d)\<rparr>
            in if list_ex (\<lambda>f. file_id f = i) (files d) then (Inr (), d'')
               else (Inl (''File not found for id '' @ toHexString i), d''))"

text \<open>
  \<^verbatim>\<open>gridFSBucket.openUploadStream(name, { metadata: { title }, chunkSizeBytes: 1048576 })\<close>
  with the buffer piped into it, up to the event the stream ends with: the call throws
  when the bucket is undefined, the stream emits \<^verbatim>\<open>error\<close> when the store fails, and
  otherwise \<^verbatim>\<open>finish\<close>, once the chunks and the document of the file are written.
  Chunks a failed upload has written are referenced by no file and are left out.
\<close>

datatype upload_result = Threw string | ErrorEvent string | Finish oid

definition chunked :: "nat \<Rightarrow> 'a list \<Rightarrow> 'a list list" where
  "chunked n xs = map (\<lambda>k. take n (drop (k * n) xs)) [0..<(length xs + n - 1) div n]"

definition openUploadStream ::
  "string \<Rightarrow> string \<Rightarrow> nat list \<Rightarrow> db \<Rightarrow> upload_result \<times> db" where
  "openUploadStream name t buf d =
     (if \<not> connected d then (Threw (undefined_bucket ''openUploadStream''), d)
      else let d' = record_call (OpenUploadStream name t) d in
        case fault d (OpenUploadStream name t) of
          Some m \<Rightarrow> (ErrorEvent m, d')
        | None \<Rightarrow>
            let i = Oid (next_id d) in
            (Finish i,
             d'\<lparr>files := files d @
                   [\<lparr>file_id = i, filename = name, flength = length buf,
                     chunkSizeBytes = 1048576, uploadDate = clock d, metadata_title = t,
                     contentType = None\<rparr>],
                 chunks := chunks d @
                   map (\<lambda>(k, c). \<lparr>files_id = i, seq_n = k, chunk_data = c\<rparr>)
                       (enumerate 0 (chunked 1048576 buf)),
                 next_id := next_id d + 1\<rparr>))"

subsection \<open>Requests and responses\<close>

record upload_file =
  originalname :: string
  buffer :: "nat list"

text \<open>
  What a handler reads of a request: \<^verbatim>\<open>req.params.id\<close>, \<^verbatim>\<open>req.headers.range\<close>, and the
  form. \<^verbatim>\<open>req.body\<close> is undefined when no middleware has parsed a body (\<open>No_body\<close>);
  then multer has stored no file either. Otherwise the form has \<^verbatim>\<open>req.body.title\<close> (a
  string, or absent) and \<^verbatim>\<open>req.file\<close> (the upload multer has put in memory, or absent).
\<close>

datatype form = No_body | Form "string option" "upload_file option"

record request =
  id_param :: string
  form :: form
  range_header :: "string option"

definition body_title :: "request \<Rightarrow> string option" where
  "body_title req = (case form req of No_body \<Rightarrow> None | Form t f \<Rightarrow> t)"

definition req_file :: "request \<Rightarrow> upload_file option" where
  "req_file req = (case form req of No_body \<Rightarrow> None | Form t f \<Rightarrow> f)"

text \<open>\<^verbatim>\<open>const { title } = req.body\<close> while \<^verbatim>\<open>req.body\<close> is undefined.\<close>

definition undefined_body :: string where
  "undefined_body =
     ''Cannot destructure property '' @ quoted ''title'' @ '' of '' @ quoted ''req.body''
     @ '' as it is undefined.''"

text \<open>
  The body of a response is the value given to \<^verbatim>\<open>res.json\<close>, or the download stream
  that is piped into the response, with the options it was opened with, or the HTML page
  of the default error handler of Express.
\<close>

datatype body = Json jsv | Piped oid int int | Error_page

record response =
  status :: nat
  headers :: "(string \<times> jsv) list"
  body :: body

definition json :: "nat \<Rightarrow> jsv \<Rightarrow> response" where
  "json st v = \<lparr>status = st, headers = [], body = Json v\<rparr>"

definition error_body :: "string \<Rightarrow> jsv" where
  "error_body m = Obj [(''error'', Str m)]"

text \<open>
  The application registers no error middleware. When \<^verbatim>\<open>bodyParser.json()\<close> or
  \<^verbatim>\<open>upload.single("video")\<close> passes an error on, the route handler does not run and
  Express answers with its own page: under the status of the error when that is between
  400 and 599, and under 500 otherwise. Of the page, the model keeps that it is HTML.
\<close>

definition express_error :: "nat option \<Rightarrow> response" where
  "express_error st =
     \<lparr>status = (case st of
                  None \<Rightarrow> 500
                | Some n \<Rightarrow> if 400 \<le> n \<and> n < 600 then n else 500),
      headers = [(''Content-Type'', Str ''text/html; charset=utf-8'')],
      body = Error_page\<rparr>"

section \<open>GET /video/:id\<close>

definition CHUNK_SIZE :: int where
  "CHUNK_SIZE = 10 ^ 6"

text \<open>\<^verbatim>\<open>Number(range.replace(/\D/g, ""))\<close>\<close>

definition parse_start :: "string \<Rightarrow> int" where
  "parse_start r = Number_of_digits (strip_non_digits r)"

definition get_video ::
  "(string \<Rightarrow> string + oid) \<Rightarrow> db \<Rightarrow> request \<Rightarrow> response \<times> db" where
  "get_video ctor d req =
     (case ctor (id_param req) of
        Inl err \<Rightarrow> (json 500 (error_body ''Video not found''), d)
      | Inr fileId \<Rightarrow>
          (case find_id fileId d of
             (Inl err, d1) \<Rightarrow> (json 500 (error_body ''Video not found''), d1)
           | (Inr [], d1) \<Rightarrow> (json 404 (error_body ''Video not found''), d1)
           | (Inr (file0 # _), d1) \<Rightarrow>
               let videoSize = int (flength file0) in
               if \<not> truthy (range_header req)
               then (json 400 (error_body ''Requires Range header''), d1)
               else
                 let start = parse_start (str_value (range_header req));
                     end = min (start + CHUNK_SIZE) (videoSize - 1);
                     contentLength = end - start + 1
                 in (\<lparr>status = 206,
                      headers =
                        [(''Content-Range'',
                            Str (''bytes '' @ String_of_int start @ ''-'' @ String_of_int end
                                 @ ''/'' @ String_of_int videoSize)),
                         (''Accept-Ranges'', Str ''bytes''),
                         (''Content-Length'', Num contentLength),
                         (''Content-Type'', Str ''video/mp4'')],
                      body = Piped fileId start end\<rparr>,
                     record_call (OpenDownloadStream fileId start end) d1)))"

section \<open>POST /upload\<close>

definition post_upload :: "db \<Rightarrow> request \<Rightarrow> response \<times> db" where
  "post_upload d req =
     (if form req = No_body then (json 500 (error_body ''Internal Server Error''), d)
      else
      let title = body_title req in
      case req_file req of
        None \<Rightarrow> (json 400 (error_body ''Title and video file are required!''), d)
      | Some file \<Rightarrow>
          if \<not> truthy title
          then (json 400 (error_body ''Title and video file are required!''), d)
          else
            (case openUploadStream (originalname file) (str_value title) (buffer file) d of
               (Threw err, d1) \<Rightarrow> (json 500 (error_body ''Internal Server Error''), d1)
             | (ErrorEvent err, d1) \<Rightarrow> (json 500 (error_body ''Failed to upload video''), d1)
             | (Finish i, d1) \<Rightarrow>
                 (json 200 (Obj [(''message'', Str ''Video uploaded successfully!''),
                                 (''fileId'', ObjId i)]), d1)))"

section \<open>GET /videos\<close>

definition video_entry :: "file_doc \<Rightarrow> jsv" where
  "video_entry file =
     Obj [(''_id'', ObjId (file_id file)),
          (''filename'', Str (metadata_title file)),
          (''length'', Num (int (flength file))),
          (''contentType'', (case contentType file of None \<Rightarrow> Undefined | Some c \<Rightarrow> Str c)),
          (''uploadDate'', Date (uploadDate file)),
          (''videoUrl'',
             Str (''https://video-app-backend-1.onrender.com/video/''
                  @ toHexString (file_id file)))]"

definition get_videos :: "db \<Rightarrow> response \<times> db" where
  "get_videos d =
     (case find_all d of
        (Inl err, d1) \<Rightarrow> (json 500 (error_body err), d1)
      | (Inr [], d1) \<Rightarrow> (json 404 (error_body ''No videos found''), d1)
      | (Inr (f # fs), d1) \<Rightarrow> (json 200 (Arr (map video_entry (f # fs))), d1))"

section \<open>PUT /video/:id\<close>

definition replace_failed :: "string \<Rightarrow> response" where
  "replace_failed err =
     json 500 (Obj [(''error'', Str ''Failed to replace video''), (''details'', Str err)])"

definition put_video ::
  "(string \<Rightarrow> string + oid) \<Rightarrow> db \<Rightarrow> request \<Rightarrow> response \<times> db" where
  "put_video ctor d req =
     (case ctor (id_param req) of
        Inl err \<Rightarrow> (replace_failed err, d)
      | Inr fileId \<Rightarrow>
          if form req = No_body then (replace_failed undefined_body, d)
          else
          let title = body_title req in
          (case find_id fileId d of
             (Inl err, d1) \<Rightarrow> (replace_failed err, d1)
           | (Inr [], d1) \<Rightarrow> (json 404 (error_body ''Video not found''), d1)
           | (Inr (file0 # _), d1) \<Rightarrow>
               (case (if truthy title then updateOne fileId (str_value title) d1 else (Inr (), d1)) of
                  (Inl err, d2) \<Rightarrow> (replace_failed err, d2)
                | (Inr _, d2) \<Rightarrow>
                    (case req_file req of
                       None \<Rightarrow>
                         (json 200 (Obj [(''message'', Str ''Metadata updated successfully!'')]),
                          d2)
                     | Some file \<Rightarrow>
                         (case delete_file fileId d2 of
                            (Inl err, d3) \<Rightarrow> (replace_failed err, d3)
                          | (Inr _, d3) \<Rightarrow>
                              (case openUploadStream (originalname file)
                                      (if truthy title then str_value title else metadata_title file0)
                                      (buffer file) d3 of
                                 (Threw err, d4) \<Rightarrow> (replace_failed err, d4)
                               | (ErrorEvent err, d4) \<Rightarrow>
                                   (json 500 (error_body ''Failed to upload new video''), d4)
                               | (Finish i, d4) \<Rightarrow>
                                   (json 200
                                      (Obj [(''message'', Str ''Video replaced successfully!''),
                                            (''fileId'', ObjId i)]), d4)))))))"

section \<open>DELETE /video/:id\<close>

definition delete_video ::
  "(string \<Rightarrow> string + oid) \<Rightarrow> db \<Rightarrow> request \<Rightarrow> response \<times> db" where
  "delete_video ctor d req =
     (case ctor (id_param req) of
        Inl err \<Rightarrow> (json 500 (error_body ''Failed to delete video''), d)
      | Inr fileId \<Rightarrow>
          (case find_id fileId d of
             (Inl err, d1) \<Rightarrow> (json 500 (error_body ''Failed to delete video''), d1)
           | (Inr [], d1) \<Rightarrow> (json 404 (error_body ''Video not found''), d1)
           | (Inr (file0 # _), d1) \<Rightarrow>
               (case delete_file fileId d1 of
                  (Inl err, d2) \<Rightarrow> (json 500 (error_body ''Failed to delete video''), d2)
                | (Inr _, d2) \<Rightarrow>
                    (json 200 (Obj [(''message'', Str ''Video deleted successfully'')]), d2))))"

section \<open>Notions used in the statements\<close>

text \<open>
  The leading numeric token of a range header, in the words of the specification: the
  first maximal run of decimal digits. \<open>digits_after_token\<close> are the digits that
  follow it, if any (those of an end offset, as in \<^verbatim>\<open>bytes=100-200\<close>).
\<close>

definition spec_leading_numeric_token :: "string \<Rightarrow> string" where
  "spec_leading_numeric_token r = takeWhile is_digit (dropWhile (\<lambda>c. \<not> is_digit c) r)"

definition digits_after_token :: "string \<Rightarrow> string" where
  "digits_after_token r =
     filter is_digit (dropWhile is_digit (dropWhile (\<lambda>c. \<not> is_digit c) r))"

text \<open>The numbers of a range request stay where doubles are exact.\<close>

definition exact_numbers :: "string \<Rightarrow> file_doc \<Rightarrow> bool" where
  "exact_numbers r f =
     (safe_integer (parse_start r + CHUNK_SIZE) \<and> safe_integer (int (flength f)))"

text \<open>A property of a JSON object, and the \<^verbatim>\<open>error\<close> field of a response body.\<close>

definition field :: "string \<Rightarrow> jsv \<Rightarrow> jsv" where
  "field k v =
     (case v of
        Obj kvs \<Rightarrow> (case map_of kvs k of None \<Rightarrow> Undefined | Some w \<Rightarrow> w)
      | _ \<Rightarrow> Undefined)"

definition error_field :: "response \<Rightarrow> jsv" where
  "error_field r =
     (case body r of
        Json v \<Rightarrow> field ''error'' v
      | Piped _ _ _ \<Rightarrow> Undefined
      | Error_page \<Rightarrow> Undefined)"

definition client_error :: "response \<Rightarrow> bool" where
  "client_error r = (400 \<le> status r \<and> status r < 500)"

definition is_error :: "response \<Rightarrow> bool" where
  "is_error r = (400 \<le> status r)"

text \<open>
  The requests of the five routes, a request that a middleware has refused (with the
  status of its error, if it has one), and the service of a sequence of requests.
\<close>

datatype http_request =
    POST_upload request
  | GET_videos
  | GET_video request
  | PUT_video request
  | DELETE_video request
  | Middleware_error "nat option"

fun handle :: "(string \<Rightarrow> string + oid) \<Rightarrow> db \<Rightarrow> http_request \<Rightarrow> response \<times> db" where
  "handle ctor d (POST_upload req) = post_upload d req"
| "handle ctor d GET_videos = get_videos d"
| "handle ctor d (GET_video req) = get_video ctor d req"
| "handle ctor d (PUT_video req) = put_video ctor d req"
| "handle ctor d (DELETE_video req) = delete_video ctor d req"
| "handle ctor d (Middleware_error st) = (express_error st, d)"






subsection \<open>A store with one blob of 2,500,000 bytes\<close>

definition example_db :: db where
  "example_db =
     \<lparr>connected = True,
      files = [\<lparr>file_id = Oid 161, filename = ''clip.mp4'', flength = 2500000,
                chunkSizeBytes = 1048576, uploadDate = 1700000000,
                metadata_title = ''Holiday'', contentType = None\<rparr>],
      chunks = [\<lparr>files_id = Oid 161, seq_n = 0, chunk_data = replicate 1048576 0\<rparr>,
                \<lparr>files_id = Oid 161, seq_n = 1, chunk_data = replicate 1048576 0\<rparr>,
                \<lparr>files_id = Oid 161, seq_n = 2, chunk_data = replicate 402848 0\<rparr>],
      fault = (\<lambda>c. None),
      next_id = 162,
      clock = 1700000100,
      calls = []\<rparr>"

definition example_request :: "string option \<Rightarrow> request" where
  "example_request r =
     \<lparr>id_param = ''0000000000000000000000a1'', form = Form None None,
      range_header = r\<rparr>"

definition example_file :: upload_file where
  "example_file = \<lparr>originalname = ''new.mp4'', buffer = [7, 8, 9]\<rparr>"

definition example_put :: "string option \<Rightarrow> request" where
  "example_put t =
     \<lparr>id_param = ''0000000000000000000000a1'', form = Form t (Some example_file),
      range_header = None\<rparr>"

section \<open>Facts about the store calls\<close>

declare decimal.simps [simp del]

lemma find_id_ok:
  "connected d \<Longrightarrow> fault d (Find_id i) = None \<Longrightarrow>
   find_id i d = (Inr (filter (\<lambda>f. file_id f = i) (files d)), record_call (Find_id i) d)"
  by (simp add: find_id_def)

lemma example_id: "ObjectId ''0000000000000000000000a1'' = Inr (Oid 161)"
  by (simp add: ObjectId_def well_formed_id_def is_hex_def hex_table_def hex_val_def)

lemma get_video_partial:
  assumes "ctor (id_param req) = Inr i" and "connected d" and "fault d (Find_id i) = None"
    and "filter (\<lambda>f. file_id f = i) (files d) = f # fs"
    and "range_header req = Some r" and "r \<noteq> []"
  shows "get_video ctor d req =
     (\<lparr>status = 206,
       headers =
         [(''Content-Range'',
             Str (''bytes '' @ String_of_int (parse_start r) @ ''-''
                  @ String_of_int (min (parse_start r + CHUNK_SIZE) (int (flength f) - 1))
                  @ ''/'' @ String_of_int (int (flength f)))),
          (''Accept-Ranges'', Str ''bytes''),
          (''Content-Length'',
             Num (min (parse_start r + CHUNK_SIZE) (int (flength f) - 1) - parse_start r + 1)),
          (''Content-Type'', Str ''video/mp4'')],
       body = Piped i (parse_start r) (min (parse_start r + CHUNK_SIZE) (int (flength f) - 1))\<rparr>,
      record_call (OpenDownloadStream i (parse_start r)
                     (min (parse_start r + CHUNK_SIZE) (int (flength f) - 1)))
        (record_call (Find_id i) d))"
  using assms by (simp add: get_video_def find_id_ok truthy_def str_value_def Let_def)

lemma parse_start_examples:
  "parse_start ''bytes=1000000-'' = 1000000"
  "parse_start ''bytes=100-200'' = 100200"
  "parse_start ''bytes=-'' = 0"
  "parse_start ''bytes=2500000-'' = 2500000"
  by (simp_all add: parse_start_def Number_of_digits_def strip_non_digits_def is_digit_def
        digit_val_def)

lemma example_partial:
  "r \<noteq> [] \<Longrightarrow> fst (get_video ObjectId example_db (example_request (Some r))) =
     \<lparr>status = 206,
       headers =
         [(''Content-Range'',
             Str (''bytes '' @ String_of_int (parse_start r) @ ''-''
                  @ String_of_int (min (parse_start r + CHUNK_SIZE) 2499999)
                  @ ''/'' @ String_of_int 2500000)),
          (''Accept-Ranges'', Str ''bytes''),
          (''Content-Length'',
             Num (min (parse_start r + CHUNK_SIZE) 2499999 - parse_start r + 1)),
          (''Content-Type'', Str ''video/mp4'')],
       body = Piped (Oid 161) (parse_start r) (min (parse_start r + CHUNK_SIZE) 2499999)\<rparr>"
  by (subst get_video_partial [where i = "Oid 161" and r = r and fs = "[]"
        and f = "hd (files example_db)"])
     (simp_all add: example_request_def body_title_def req_file_def example_db_def example_id)

lemma strip_single_token:
  assumes "digits_after_token r = []"
  shows "strip_non_digits r = spec_leading_numeric_token r"
proof -
  let ?nd = "\<lambda>c. \<not> is_digit c"
  have split: "r = takeWhile ?nd r @ takeWhile is_digit (dropWhile ?nd r)
                 @ dropWhile is_digit (dropWhile ?nd r)"
    by simp
  have a: "filter is_digit (takeWhile ?nd r) = []"
    by (auto simp: filter_empty_conv dest: set_takeWhileD)
  have b: "filter is_digit (takeWhile is_digit (dropWhile ?nd r))
             = takeWhile is_digit (dropWhile ?nd r)"
    by (auto simp: filter_id_conv dest: set_takeWhileD)
  have "filter is_digit r =
          filter is_digit (takeWhile ?nd r)
          @ filter is_digit (takeWhile is_digit (dropWhile ?nd r))
          @ filter is_digit (dropWhile is_digit (dropWhile ?nd r))"
    by (subst split) (simp only: filter_append)
  then show ?thesis
    using a b assms
    by (simp add: strip_non_digits_def spec_leading_numeric_token_def digits_after_token_def)
qed

lemma parse_start_nonneg: "0 \<le> parse_start r"
  by (simp add: parse_start_def Number_of_digits_def)

lemma get_video_no_range:
  assumes "ctor (id_param req) = Inr i" and "connected d" and "fault d (Find_id i) = None"
    and "filter (\<lambda>f. file_id f = i) (files d) = f # fs"
    and "\<not> truthy (range_header req)"
  shows "get_video ctor d req =
     (json 400 (error_body ''Requires Range header''), record_call (Find_id i) d)"
  using assms by (simp add: get_video_def find_id_ok)

lemma example_find: "filter (\<lambda>f. file_id f = Oid 161) (files example_db) = [hd (files example_db)]"
  by (simp add: example_db_def)

lemma example_no_range:
  "get_video ObjectId example_db (example_request None) =
     (json 400 (error_body ''Requires Range header''), record_call (Find_id (Oid 161)) example_db)"
  by (rule get_video_no_range [where fs = "[]" and f = "hd (files example_db)"])
     (simp_all add: example_request_def body_title_def req_file_def example_id example_find truthy_def, simp_all add: example_db_def)

lemma get_video_ctor_throws:
  "ctor (id_param req) = Inl e \<Longrightarrow>
   get_video ctor d req = (json 500 (error_body ''Video not found''), d)"
  by (simp add: get_video_def)

lemma put_video_ctor_throws:
  "ctor (id_param req) = Inl e \<Longrightarrow> put_video ctor d req = (replace_failed e, d)"
  by (simp add: put_video_def)

lemma delete_video_ctor_throws:
  "ctor (id_param req) = Inl e \<Longrightarrow>
   delete_video ctor d req = (json 500 (error_body ''Failed to delete video''), d)"
  by (simp add: delete_video_def)

lemma ObjectId_malformed:
  "\<not> well_formed_id s \<Longrightarrow>
   ObjectId s = Inl ''input must be a 24 character hex string, 12 byte Uint8Array, or an integer''"
  by (simp add: ObjectId_def)

lemma get_video_400_after_find:
  assumes "status (fst (get_video ctor d req)) = 400"
  shows "\<exists>i f fs. ctor (id_param req) = Inr i \<and> \<not> truthy (range_header req) \<and>
           filter (\<lambda>f. file_id f = i) (files d) = f # fs \<and>
           snd (get_video ctor d req) = record_call (Find_id i) d"
  using assms
  by (auto simp: get_video_def find_id_def json_def Let_def
        split: sum.splits option.splits list.splits if_splits prod.splits)

lemma field_filename: "field ''filename'' (video_entry f) = Str (metadata_title f)"
  by (simp add: field_def video_entry_def)

lemma get_videos_200:
  assumes "status (fst (get_videos d)) = 200"
  shows "body (fst (get_videos d)) = Json (Arr (map video_entry (files d)))"
  using assms
  by (auto simp: get_videos_def find_all_def json_def Let_def
        split: option.splits list.splits if_splits)

lemma openUploadStream_ok:
  "connected d \<Longrightarrow> fault d (OpenUploadStream name t) = None \<Longrightarrow>
   openUploadStream name t buf d =
     (Finish (Oid (next_id d)),
      d\<lparr>calls := calls d @ [OpenUploadStream name t],
        files := files d @
          [\<lparr>file_id = Oid (next_id d), filename = name, flength = length buf,
            chunkSizeBytes = 1048576, uploadDate = clock d, metadata_title = t,
            contentType = None\<rparr>],
        chunks := chunks d @
          map (\<lambda>(k, c). \<lparr>files_id = Oid (next_id d), seq_n = k, chunk_data = c\<rparr>)
              (enumerate 0 (chunked 1048576 buf)),
        next_id := next_id d + 1\<rparr>)"
  by (simp add: openUploadStream_def record_call_def Let_def)

lemma post_upload_200:
  assumes "status (fst (post_upload d req)) = 200"
  shows "\<exists>file t. req_file req = Some file \<and> body_title req = Some t \<and> t \<noteq> [] \<and>
           files (snd (post_upload d req)) = files d @
             [\<lparr>file_id = Oid (next_id d), filename = originalname file,
               flength = length (buffer file), chunkSizeBytes = 1048576,
               uploadDate = clock d, metadata_title = t, contentType = None\<rparr>]"
  using assms
  by (auto simp: post_upload_def openUploadStream_def json_def Let_def truthy_def
        str_value_def record_call_def
        split: option.splits if_splits)

lemma is_error_json [simp]: "is_error (json st v) = (400 \<le> st)"
  by (simp add: is_error_def json_def)

lemma is_error_replace_failed [simp]: "is_error (replace_failed e)"
  by (simp add: replace_failed_def)








lemma updateOne_ok:
  "connected d \<Longrightarrow> fault d (UpdateOne i t) = None \<Longrightarrow>
   updateOne i t d =
     (Inr (), d\<lparr>calls := calls d @ [UpdateOne i t],
               files := map (\<lambda>f. if file_id f = i then f\<lparr>metadata_title := t\<rparr> else f)
                            (files d)\<rparr>)"
  by (simp add: updateOne_def record_call_def Let_def)

lemma delete_file_ok:
  "connected d \<Longrightarrow> fault d (Delete i) = None \<Longrightarrow>
   filter (\<lambda>f. file_id f = i) (files d) \<noteq> [] \<Longrightarrow>
   delete_file i d =
     (Inr (), d\<lparr>calls := calls d @ [Delete i],
               files := filter (\<lambda>f. file_id f \<noteq> i) (files d),
               chunks := filter (\<lambda>c. files_id c \<noteq> i) (chunks d)\<rparr>)"
  by (auto simp: delete_file_def record_call_def Let_def list_ex_iff filter_empty_conv)

lemma filter_retitled:
  "filter (\<lambda>f. file_id f \<noteq> i)
     (map (\<lambda>f. if file_id f = i then f\<lparr>metadata_title := t\<rparr> else f) fs)
   = filter (\<lambda>f. file_id f \<noteq> i) fs"
  by (induction fs) auto

lemma filter_retitled_found:
  "filter (\<lambda>f. file_id f = i) fs \<noteq> [] \<Longrightarrow>
   filter (\<lambda>f. file_id f = i)
     (map (\<lambda>f. if file_id f = i then f\<lparr>metadata_title := t\<rparr> else f) fs) \<noteq> []"
  by (induction fs) auto

lemma req_file_form: "req_file req = Some u \<Longrightarrow> form req \<noteq> No_body"
  by (auto simp: req_file_def)

lemma post_upload_no_body:
  "form req = No_body \<Longrightarrow>
   post_upload d req = (json 500 (error_body ''Internal Server Error''), d)"
  by (simp add: post_upload_def)

lemma post_upload_invalid:
  "form req \<noteq> No_body \<Longrightarrow> \<not> truthy (body_title req) \<or> req_file req = None \<Longrightarrow>
   post_upload d req = (json 400 (error_body ''Title and video file are required!''), d)"
  by (auto simp: post_upload_def Let_def split: option.splits)


lemma put_video_replace:
  assumes "ctor (id_param req) = Inr i" and "connected d" and "fault d = (\<lambda>c. None)"
    and "filter (\<lambda>f. file_id f = i) (files d) = f # fs"
    and "req_file req = Some upl"
  shows "fst (put_video ctor d req) =
           json 200 (Obj [(''message'', Str ''Video replaced successfully!''),
                          (''fileId'', ObjId (Oid (next_id d)))])"
    and "files (snd (put_video ctor d req)) =
           filter (\<lambda>g. file_id g \<noteq> i) (files d) @
             [\<lparr>file_id = Oid (next_id d), filename = originalname upl,
               flength = length (buffer upl), chunkSizeBytes = 1048576,
               uploadDate = clock d,
               metadata_title = (if truthy (body_title req) then str_value (body_title req)
                                 else metadata_title f),
               contentType = None\<rparr>]"
proof -
  have found: "filter (\<lambda>f. file_id f = i) (files d) \<noteq> []"
    using assms(4) by simp
  show "fst (put_video ctor d req) =
           json 200 (Obj [(''message'', Str ''Video replaced successfully!''),
                          (''fileId'', ObjId (Oid (next_id d)))])"
    using assms found
    by (simp add: put_video_def find_id_ok updateOne_ok delete_file_ok openUploadStream_ok
          record_call_def filter_retitled filter_retitled_found Let_def req_file_form)
  show "files (snd (put_video ctor d req)) =
           filter (\<lambda>g. file_id g \<noteq> i) (files d) @
             [\<lparr>file_id = Oid (next_id d), filename = originalname upl,
               flength = length (buffer upl), chunkSizeBytes = 1048576,
               uploadDate = clock d,
               metadata_title = (if truthy (body_title req) then str_value (body_title req)
                                 else metadata_title f),
               contentType = None\<rparr>]"
    using assms found
    by (simp add: put_video_def find_id_ok updateOne_ok delete_file_ok openUploadStream_ok
          record_call_def filter_retitled filter_retitled_found Let_def req_file_form)
qed





















section \<open>The serving window (C1)\<close>

text \<open>
  Claim C1 says that the served inclusive end offset is \<open>min (s + 1000000 - 1) (L - 1)\<close>,
  so that a request for \<^verbatim>\<open>bytes=1000000-\<close> on a blob of 2,500,000 bytes is answered
  with \<^verbatim>\<open>Content-Range: bytes 1000000-1999999/2500000\<close> and 1,000,000 bytes. The
  handler computes \<^verbatim>\<open>Math.min(start + CHUNK_SIZE, videoSize - 1)\<close>, one more than that:
  on this request it declares the range 1000000-2000000 and a content length of
  1,000,001, and opens the download stream with these offsets.
\<close>

theorem window_end_example:
  "fst (get_video ObjectId example_db (example_request (Some ''bytes=1000000-''))) =
     \<lparr>status = 206,
       headers =
         [(''Content-Range'', Str ''bytes 1000000-2000000/2500000''),
          (''Accept-Ranges'', Str ''bytes''),
          (''Content-Length'', Num 1000001),
          (''Content-Type'', Str ''video/mp4'')],
       body = Piped (Oid 161) 1000000 2000000\<rparr>"
  by (simp add: example_partial parse_start_examples CHUNK_SIZE_def String_of_int_def
        decimal.simps)

section \<open>The start offset (C2)\<close>

text \<open>
  Claim C2 says that the start offset is the value of the leading numeric token of the
  range header, and that a header with no numeric token is rejected as a client error.
  The handler removes every character that is not a digit and reads what is left as one
  number: \<^verbatim>\<open>bytes=100-200\<close> starts at 100200, not at 100, and \<^verbatim>\<open>bytes=-\<close>, which has
  no numeric token, is served from offset 0 with status 206.
\<close>

theorem start_counterexample:
  "parse_start ''bytes=100-200'' = 100200 \<and>
   Number_of_digits (spec_leading_numeric_token ''bytes=100-200'') = 100 \<and>
   body (fst (get_video ObjectId example_db (example_request (Some ''bytes=100-200''))))
     = Piped (Oid 161) 100200 1100200 \<and>
   spec_leading_numeric_token ''bytes=-'' = [] \<and>
   status (fst (get_video ObjectId example_db (example_request (Some ''bytes=-'')))) = 206 \<and>
   body (fst (get_video ObjectId example_db (example_request (Some ''bytes=-''))))
     = Piped (Oid 161) 0 1000000"
  by (simp add: example_partial parse_start_examples CHUNK_SIZE_def
        spec_leading_numeric_token_def Number_of_digits_def is_digit_def digit_val_def)

text \<open>
  Claim C2 as amended: for every non-empty range header in which no digit follows the
  leading numeric token (the form \<^verbatim>\<open>bytes=<start>-\<close>), the start offset is the value of
  that token, and 0 when the header has no numeric token; the request is served with
  status 206 from that offset, on an existing blob.
\<close>

theorem start_of_single_token:
  assumes "ctor (id_param req) = Inr i" and "connected d" and "fault d (Find_id i) = None"
    and "filter (\<lambda>f. file_id f = i) (files d) = f # fs"
    and "range_header req = Some r" and "r \<noteq> []"
    and "digits_after_token r = []"
    and "exact_numbers r f"
  shows "parse_start r = Number_of_digits (spec_leading_numeric_token r) \<and>
         status (fst (get_video ctor d req)) = 206 \<and>
         body (fst (get_video ctor d req)) =
           Piped i (Number_of_digits (spec_leading_numeric_token r))
             (min (Number_of_digits (spec_leading_numeric_token r) + CHUNK_SIZE)
                  (int (flength f) - 1))"
proof -
  have "parse_start r = Number_of_digits (spec_leading_numeric_token r)"
    using assms(7) by (simp add: parse_start_def strip_single_token)
  then show ?thesis
    using assms(1-6) by (simp add: get_video_partial [where f = f and fs = fs and r = r])
qed

theorem start_of_single_token_witness:
  "parse_start ''bytes=1000000-'' = 1000000 \<and>
   status (fst (get_video ObjectId example_db (example_request (Some ''bytes=1000000-'')))) = 206 \<and>
   body (fst (get_video ObjectId example_db (example_request (Some ''bytes=1000000-''))))
     = Piped (Oid 161) 1000000 2000000"
proof -
  let ?f = "\<lparr>file_id = Oid 161, filename = ''clip.mp4'', flength = 2500000,
            chunkSizeBytes = 1048576, uploadDate = 1700000000,
            metadata_title = ''Holiday'', contentType = None\<rparr>"
  have tok: "Number_of_digits (spec_leading_numeric_token ''bytes=1000000-'') = 1000000"
    by (simp add: spec_leading_numeric_token_def Number_of_digits_def is_digit_def digit_val_def)
  have "parse_start ''bytes=1000000-'' =
          Number_of_digits (spec_leading_numeric_token ''bytes=1000000-'') \<and>
        status (fst (get_video ObjectId example_db (example_request (Some ''bytes=1000000-'')))) = 206 \<and>
        body (fst (get_video ObjectId example_db (example_request (Some ''bytes=1000000-'')))) =
          Piped (Oid 161) (Number_of_digits (spec_leading_numeric_token ''bytes=1000000-''))
            (min (Number_of_digits (spec_leading_numeric_token ''bytes=1000000-'') + CHUNK_SIZE)
                 (int (flength ?f) - 1))"
    by (rule start_of_single_token [where fs = "[]"])
       (simp_all add: example_request_def body_title_def req_file_def example_db_def example_id digits_after_token_def
          is_digit_def exact_numbers_def safe_integer_def MAX_SAFE_INTEGER_def
          parse_start_examples CHUNK_SIZE_def)
  then show ?thesis
    by (simp add: tok CHUNK_SIZE_def)
qed

section \<open>A start beyond the end of the blob (C3)\<close>

text \<open>
  Claim C3 says that a request whose start is at or beyond the length of the blob is
  rejected with a client error and never answered with a 206. The handler compares the
  start with nothing: on a blob of 2,500,000 bytes, \<^verbatim>\<open>bytes=2500000-\<close> gets status 206,
  the range 2500000-2499999 and a content length of 0.
\<close>

theorem out_of_bounds_start_counterexample:
  "map flength (files example_db) = [2500000] \<and>
   parse_start ''bytes=2500000-'' = 2500000 \<and>
   fst (get_video ObjectId example_db (example_request (Some ''bytes=2500000-''))) =
     \<lparr>status = 206,
       headers =
         [(''Content-Range'', Str ''bytes 2500000-2499999/2500000''),
          (''Accept-Ranges'', Str ''bytes''),
          (''Content-Length'', Num 0),
          (''Content-Type'', Str ''video/mp4'')],
       body = Piped (Oid 161) 2500000 2499999\<rparr> \<and>
   \<not> client_error (fst (get_video ObjectId example_db
                           (example_request (Some ''bytes=2500000-''))))"
  by (simp add: example_partial parse_start_examples CHUNK_SIZE_def String_of_int_def
        decimal.simps client_error_def) (simp add: example_db_def)

text \<open>
  Claim C3 as amended: for every GET /video/:id on an existing blob of length \<open>L\<close>
  whose range header parses to a start with \<open>start \<ge> L\<close>, the handler does not reject
  the request: it sets status 206, the range \<open>start\<close> to \<open>L - 1\<close> of \<open>L\<close> and the
  content length \<open>L - start\<close>, which is at most 0, and opens the download stream with
  these offsets. A parsed start is never negative, since the sign is removed with the
  other characters that are not digits.
\<close>

theorem out_of_bounds_start_served:
  assumes "ctor (id_param req) = Inr i" and "connected d" and "fault d (Find_id i) = None"
    and "filter (\<lambda>f. file_id f = i) (files d) = f # fs"
    and "range_header req = Some r" and "r \<noteq> []"
    and "int (flength f) \<le> parse_start r"
    and "exact_numbers r f"
  shows "0 \<le> parse_start r \<and>
         fst (get_video ctor d req) =
           \<lparr>status = 206,
             headers =
               [(''Content-Range'',
                   Str (''bytes '' @ String_of_int (parse_start r) @ ''-''
                        @ String_of_int (int (flength f) - 1)
                        @ ''/'' @ String_of_int (int (flength f)))),
                (''Accept-Ranges'', Str ''bytes''),
                (''Content-Length'', Num (int (flength f) - parse_start r)),
                (''Content-Type'', Str ''video/mp4'')],
             body = Piped i (parse_start r) (int (flength f) - 1)\<rparr> \<and>
         int (flength f) - parse_start r \<le> 0 \<and>
         \<not> client_error (fst (get_video ctor d req))"
proof -
  have "min (parse_start r + CHUNK_SIZE) (int (flength f) - 1) = int (flength f) - 1"
    using assms(7) by (simp add: CHUNK_SIZE_def)
  then show ?thesis
    using assms(1-7)
    by (simp add: get_video_partial [where f = f and fs = fs and r = r] parse_start_nonneg
          client_error_def)
qed

theorem out_of_bounds_start_served_witness:
  "fst (get_video ObjectId example_db (example_request (Some ''bytes=2500000-''))) =
     \<lparr>status = 206,
       headers =
         [(''Content-Range'', Str ''bytes 2500000-2499999/2500000''),
          (''Accept-Ranges'', Str ''bytes''),
          (''Content-Length'', Num 0),
          (''Content-Type'', Str ''video/mp4'')],
       body = Piped (Oid 161) 2500000 2499999\<rparr>"
proof -
  let ?f = "hd (files example_db)"
  have len: "flength ?f = 2500000"
    by (simp add: example_db_def)
  have "0 \<le> parse_start ''bytes=2500000-'' \<and>
        fst (get_video ObjectId example_db (example_request (Some ''bytes=2500000-''))) =
           \<lparr>status = 206,
             headers =
               [(''Content-Range'',
                   Str (''bytes '' @ String_of_int (parse_start ''bytes=2500000-'') @ ''-''
                        @ String_of_int (int (flength ?f) - 1)
                        @ ''/'' @ String_of_int (int (flength ?f)))),
                (''Accept-Ranges'', Str ''bytes''),
                (''Content-Length'', Num (int (flength ?f) - parse_start ''bytes=2500000-'')),
                (''Content-Type'', Str ''video/mp4'')],
             body = Piped (Oid 161) (parse_start ''bytes=2500000-'') (int (flength ?f) - 1)\<rparr> \<and>
         int (flength ?f) - parse_start ''bytes=2500000-'' \<le> 0 \<and>
         \<not> client_error (fst (get_video ObjectId example_db
                                 (example_request (Some ''bytes=2500000-''))))"
    by (rule out_of_bounds_start_served [where fs = "[]"])
       (simp_all add: example_request_def body_title_def req_file_def example_id example_find len parse_start_examples
          exact_numbers_def safe_integer_def MAX_SAFE_INTEGER_def CHUNK_SIZE_def,
        simp_all add: example_db_def)
  then show ?thesis
    by (simp add: len parse_start_examples String_of_int_def decimal.simps)
qed

section \<open>A request without a range header (C8)\<close>

text \<open>
  Claim C8: a GET /video/:id whose id resolves to an existing blob and that carries no
  range header (the header is absent or empty) is answered with status 400 and an error
  body, never with the content and status 200.
\<close>

theorem missing_range_rejected:
  assumes "ctor (id_param req) = Inr i" and "connected d" and "fault d (Find_id i) = None"
    and "filter (\<lambda>f. file_id f = i) (files d) = f # fs"
    and "\<not> truthy (range_header req)"
  shows "fst (get_video ctor d req) = json 400 (error_body ''Requires Range header'') \<and>
         status (fst (get_video ctor d req)) = 400 \<and>
         error_field (fst (get_video ctor d req)) = Str ''Requires Range header''"
  using assms by (simp add: get_video_no_range json_def error_body_def error_field_def field_def)

theorem missing_range_rejected_witness:
  "fst (get_video ObjectId example_db (example_request None)) =
     json 400 (error_body ''Requires Range header'') \<and>
   status (fst (get_video ObjectId example_db (example_request None))) = 400 \<and>
   error_field (fst (get_video ObjectId example_db (example_request None))) =
     Str ''Requires Range header''"
  by (rule missing_range_rejected [where fs = "[]" and f = "hd (files example_db)"
        and i = "Oid 161"])
     (simp_all add: example_request_def body_title_def req_file_def example_id example_find truthy_def,
      simp_all add: example_db_def)

section \<open>Validation and the store (C4)\<close>

text \<open>
  Claim C4 says that every validation error is reported, as a client error, before any
  interaction with the store, and in particular that a GET /video/:id without a range
  header is answered 400 without a query for the blob record. The handler of
  GET /video/:id looks the record up first and tests the header afterwards: the request
  without a header has queried the store when it is answered 400, and for an identifier
  that no blob has it is answered 404, so that the missing header is not reported at
  all. A POST /upload with no parsed body, which has neither title nor file, is answered
  500 and not 400: the handler throws when it reads the title.
\<close>

theorem validation_order_counterexample:
  "range_header (example_request None) = None \<and>
   status (fst (get_video ObjectId example_db (example_request None))) = 400 \<and>
   calls example_db = [] \<and>
   calls (snd (get_video ObjectId example_db (example_request None))) = [Find_id (Oid 161)] \<and>
   status (fst (get_video ObjectId example_db
                  ((example_request None)\<lparr>id_param := ''0000000000000000000000a2''\<rparr>))) = 404 \<and>
   fst (post_upload example_db ((example_request None)\<lparr>form := No_body\<rparr>))
     = json 500 (error_body ''Internal Server Error'')"
proof -
  have id2: "ObjectId ''0000000000000000000000a2'' = Inr (Oid 162)"
    by (simp add: ObjectId_def well_formed_id_def is_hex_def hex_table_def hex_val_def)
  have "status (fst (get_video ObjectId example_db
                  ((example_request None)\<lparr>id_param := ''0000000000000000000000a2''\<rparr>))) = 404"
    by (simp add: get_video_def example_request_def id2 find_id_def)
       (simp add: example_db_def json_def)
  then show ?thesis
    by (simp add: example_no_range json_def record_call_def post_upload_no_body)
       (simp add: example_request_def example_db_def)
qed

text \<open>
  Claim C4 as amended: a POST /upload that reaches its handler with a parsed body and
  without a title or without a file is answered 400 before any interaction with the
  store, which is left as it was. Without a parsed body the handler answers 500, and a
  request that the body parser or multer refuses is answered by Express and reaches no
  handler; the store is left as it was in both cases. On GET /video/:id the range header
  is tested only after the store has been queried for the blob record: whenever the
  handler answers 400, the header is missing, the record has been found, and the query
  for it is the one call the handler has made.
\<close>

theorem validation_order:
  "(form req \<noteq> No_body \<and> (\<not> truthy (body_title req) \<or> req_file req = None) \<longrightarrow>
      post_upload d req = (json 400 (error_body ''Title and video file are required!''), d))
   \<and> (form req = No_body \<longrightarrow>
        post_upload d req = (json 500 (error_body ''Internal Server Error''), d))
   \<and> handle ctor d (Middleware_error st) = (express_error st, d)
   \<and> (status (fst (get_video ctor d req)) = 400 \<longrightarrow>
        \<not> truthy (range_header req) \<and>
        (\<exists>i. ctor (id_param req) = Inr i \<and>
             filter (\<lambda>f. file_id f = i) (files d) \<noteq> [] \<and>
             calls (snd (get_video ctor d req)) = calls d @ [Find_id i]))"
proof (intro conjI impI)
  assume "form req \<noteq> No_body \<and> (\<not> truthy (body_title req) \<or> req_file req = None)"
  then show "post_upload d req =
      (json 400 (error_body ''Title and video file are required!''), d)"
    by (simp add: post_upload_invalid)
next
  assume "form req = No_body"
  then show "post_upload d req = (json 500 (error_body ''Internal Server Error''), d)"
    by (rule post_upload_no_body)
next
  show "handle ctor d (Middleware_error st) = (express_error st, d)"
    by simp
next
  assume a: "status (fst (get_video ctor d req)) = 400"
  from get_video_400_after_find [OF a] show "\<not> truthy (range_header req)"
    by blast
next
  assume a: "status (fst (get_video ctor d req)) = 400"
  from get_video_400_after_find [OF a]
  show "\<exists>i. ctor (id_param req) = Inr i \<and>
             filter (\<lambda>f. file_id f = i) (files d) \<noteq> [] \<and>
             calls (snd (get_video ctor d req)) = calls d @ [Find_id i]"
    by (auto simp: record_call_def)
qed

theorem validation_order_witness:
  "post_upload example_db (example_request None) =
     (json 400 (error_body ''Title and video file are required!''), example_db) \<and>
   calls (snd (get_video ObjectId example_db (example_request None))) =
     calls example_db @ [Find_id (Oid 161)]"
proof -
  have "status (fst (get_video ObjectId example_db (example_request None))) = 400"
    by (simp add: example_no_range json_def)
  moreover have "form (example_request None) \<noteq> No_body \<and>
      (\<not> truthy (body_title (example_request None)) \<or> req_file (example_request None) = None)"
    by (simp add: example_request_def body_title_def req_file_def)
  ultimately show ?thesis
    using validation_order [of "example_request None" example_db ObjectId]
    by (auto simp: example_request_def example_id)
qed

section \<open>Malformed identifiers (C9)\<close>

text \<open>
  Claim C9: when the :id segment of a GET, PUT or DELETE on /video/:id is not a string
  of 24 hexadecimal characters, the identifier constructor throws before the handler
  looks the blob up, and the \<^verbatim>\<open>catch\<close> block answers 500, not 404; the store is not
  touched.
\<close>

theorem malformed_id_500:
  assumes "\<not> well_formed_id (id_param req)"
  shows "status (fst (get_video ObjectId d req)) = 500 \<and>
         status (fst (put_video ObjectId d req)) = 500 \<and>
         status (fst (delete_video ObjectId d req)) = 500 \<and>
         snd (get_video ObjectId d req) = d \<and>
         snd (put_video ObjectId d req) = d \<and>
         snd (delete_video ObjectId d req) = d"
  using ObjectId_malformed [OF assms]
  by (simp add: get_video_ctor_throws put_video_ctor_throws delete_video_ctor_throws
        json_def replace_failed_def)

theorem malformed_id_500_witness:
  "status (fst (get_video ObjectId example_db
                  ((example_request (Some ''bytes=0-''))\<lparr>id_param := ''abc''\<rparr>))) = 500 \<and>
   status (fst (put_video ObjectId example_db
                  ((example_request (Some ''bytes=0-''))\<lparr>id_param := ''abc''\<rparr>))) = 500 \<and>
   status (fst (delete_video ObjectId example_db
                  ((example_request (Some ''bytes=0-''))\<lparr>id_param := ''abc''\<rparr>))) = 500 \<and>
   snd (get_video ObjectId example_db
          ((example_request (Some ''bytes=0-''))\<lparr>id_param := ''abc''\<rparr>)) = example_db \<and>
   snd (put_video ObjectId example_db
          ((example_request (Some ''bytes=0-''))\<lparr>id_param := ''abc''\<rparr>)) = example_db \<and>
   snd (delete_video ObjectId example_db
          ((example_request (Some ''bytes=0-''))\<lparr>id_param := ''abc''\<rparr>)) = example_db"
  by (rule malformed_id_500) (simp add: example_request_def body_title_def req_file_def well_formed_id_def)

section \<open>The name shown in the list (C10)\<close>

text \<open>
  Claim C10: in every entry of a successful GET /videos response the field
  \<^verbatim>\<open>filename\<close> is the title of the blob (\<^verbatim>\<open>metadata.title\<close>), not the name of the
  uploaded file, although an upload stores the name of the uploaded file as the
  \<^verbatim>\<open>filename\<close> of the blob and the title under its metadata.
\<close>

theorem list_filename_is_title:
  "(status (fst (get_videos d)) = 200 \<longrightarrow>
      (\<exists>entries. body (fst (get_videos d)) = Json (Arr entries) \<and>
         map (field ''filename'') entries = map (\<lambda>f. Str (metadata_title f)) (files d)))
   \<and> (status (fst (post_upload d req)) = 200 \<longrightarrow>
        (\<exists>file t. req_file req = Some file \<and> body_title req = Some t \<and>
           files (snd (post_upload d req)) = files d @
             [\<lparr>file_id = Oid (next_id d), filename = originalname file,
               flength = length (buffer file), chunkSizeBytes = 1048576,
               uploadDate = clock d, metadata_title = t, contentType = None\<rparr>]))"
proof (intro conjI impI)
  assume "status (fst (get_videos d)) = 200"
  then have "body (fst (get_videos d)) = Json (Arr (map video_entry (files d)))"
    by (rule get_videos_200)
  moreover have "map (field ''filename'') (map video_entry (files d))
                   = map (\<lambda>f. Str (metadata_title f)) (files d)"
    by (simp add: field_filename)
  ultimately show "\<exists>entries. body (fst (get_videos d)) = Json (Arr entries) \<and>
         map (field ''filename'') entries = map (\<lambda>f. Str (metadata_title f)) (files d)"
    by blast
next
  assume "status (fst (post_upload d req)) = 200"
  from post_upload_200 [OF this]
  show "\<exists>file t. req_file req = Some file \<and> body_title req = Some t \<and>
           files (snd (post_upload d req)) = files d @
             [\<lparr>file_id = Oid (next_id d), filename = originalname file,
               flength = length (buffer file), chunkSizeBytes = 1048576,
               uploadDate = clock d, metadata_title = t, contentType = None\<rparr>]"
    by blast
qed

theorem list_filename_is_title_witness:
  "map filename (files (snd (post_upload example_db (example_put (Some ''Trip'')))))
     = [''clip.mp4'', ''new.mp4''] \<and>
   map (field ''filename'')
     (case body (fst (get_videos (snd (post_upload example_db (example_put (Some ''Trip'')))))) of
        Json (Arr entries) \<Rightarrow> entries)
     = [Str ''Holiday'', Str ''Trip'']"
proof -
  let ?d = "snd (post_upload example_db (example_put (Some ''Trip'')))"
  have up: "post_upload example_db (example_put (Some ''Trip'')) =
      (json 200 (Obj [(''message'', Str ''Video uploaded successfully!''),
                      (''fileId'', ObjId (Oid 162))]),
       example_db\<lparr>calls := [OpenUploadStream ''new.mp4'' ''Trip''],
         files := files example_db @
           [\<lparr>file_id = Oid 162, filename = ''new.mp4'', flength = 3,
             chunkSizeBytes = 1048576, uploadDate = 1700000100, metadata_title = ''Trip'',
             contentType = None\<rparr>],
         chunks := chunks example_db @
           map (\<lambda>(k, c). \<lparr>files_id = Oid 162, seq_n = k, chunk_data = c\<rparr>)
               (enumerate 0 (chunked 1048576 [7, 8, 9])),
         next_id := 163\<rparr>)"
    by (simp add: post_upload_def example_put_def body_title_def req_file_def example_file_def truthy_def str_value_def
          openUploadStream_ok [where d = example_db, simplified example_db_def, simplified]
          example_db_def)
  have st1: "status (fst (post_upload example_db (example_put (Some ''Trip'')))) = 200"
    by (simp add: up json_def)
  have fs: "files ?d = files example_db @
           [\<lparr>file_id = Oid 162, filename = ''new.mp4'', flength = 3,
             chunkSizeBytes = 1048576, uploadDate = 1700000100, metadata_title = ''Trip'',
             contentType = None\<rparr>]"
    by (simp add: up)
  have st2: "status (fst (get_videos ?d)) = 200"
    by (simp only: up snd_conv)
       (simp add: get_videos_def find_all_def example_db_def json_def record_call_def)
  from list_filename_is_title [of ?d "example_put (Some ''Trip'')"] st2
  obtain entries where e: "body (fst (get_videos ?d)) = Json (Arr entries)"
    and m: "map (field ''filename'') entries = map (\<lambda>f. Str (metadata_title f)) (files ?d)"
    by blast
  show ?thesis
    by (simp add: e m fs) (simp add: example_db_def)
qed

section \<open>Error bodies (C5)\<close>




section \<open>The title of a replaced blob (C6)\<close>

text \<open>
  Claim C6: a PUT /video/:id on an existing blob that brings new content stores the
  replacement under the title given in the same call, when one is given (a title that
  is present and not empty), and under the title of the blob it replaces otherwise. The
  title and the content are two fields of one request, so that no order between them
  exists. The theorem is for a store that answers every call; the replacement is the
  last file of the store, under the identifier the response returns.
\<close>

theorem replace_title:
  assumes "ctor (id_param req) = Inr i" and "connected d" and "fault d = (\<lambda>c. None)"
    and "filter (\<lambda>f. file_id f = i) (files d) = f # fs"
    and "req_file req = Some upl"
  shows "fst (put_video ctor d req) =
           json 200 (Obj [(''message'', Str ''Video replaced successfully!''),
                          (''fileId'', ObjId (Oid (next_id d)))]) \<and>
         files (snd (put_video ctor d req)) =
           filter (\<lambda>g. file_id g \<noteq> i) (files d) @
             [\<lparr>file_id = Oid (next_id d), filename = originalname upl,
               flength = length (buffer upl), chunkSizeBytes = 1048576,
               uploadDate = clock d,
               metadata_title = (if truthy (body_title req) then str_value (body_title req)
                                 else metadata_title f),
               contentType = None\<rparr>] \<and>
         (\<forall>t. body_title req = Some t \<and> t \<noteq> [] \<longrightarrow>
              metadata_title (last (files (snd (put_video ctor d req)))) = t) \<and>
         (body_title req = None \<or> body_title req = Some [] \<longrightarrow>
              metadata_title (last (files (snd (put_video ctor d req)))) = metadata_title f)"
  using put_video_replace [where ctor = ctor and req = req and i = i and d = d and f = f
      and fs = fs and upl = upl] assms
  by (auto simp: truthy_def str_value_def)

theorem replace_title_witness:
  "map metadata_title (files (snd (put_video ObjectId example_db (example_put (Some ''Trip'')))))
     = [''Trip''] \<and>
   map metadata_title (files (snd (put_video ObjectId example_db (example_put None))))
     = [''Holiday''] \<and>
   fst (put_video ObjectId example_db (example_put (Some ''Trip''))) =
     json 200 (Obj [(''message'', Str ''Video replaced successfully!''),
                    (''fileId'', ObjId (Oid 162))])"
proof -
  have pre: "ObjectId (id_param (example_put t)) = Inr (Oid 161)" for t
    by (simp add: example_put_def body_title_def req_file_def example_id)
  have c: "connected example_db" "fault example_db = (\<lambda>c. None)" "next_id example_db = 162"
    by (simp_all add: example_db_def)
  have f: "req_file (example_put t) = Some example_file" for t
    by (simp add: example_put_def body_title_def req_file_def)
  have w: "fst (put_video ObjectId example_db (example_put t)) =
           json 200 (Obj [(''message'', Str ''Video replaced successfully!''),
                          (''fileId'', ObjId (Oid (next_id example_db)))]) \<and>
         files (snd (put_video ObjectId example_db (example_put t))) =
           filter (\<lambda>g. file_id g \<noteq> Oid 161) (files example_db) @
             [\<lparr>file_id = Oid (next_id example_db), filename = originalname example_file,
               flength = length (buffer example_file), chunkSizeBytes = 1048576,
               uploadDate = clock example_db,
               metadata_title =
                 (if truthy (body_title (example_put t)) then str_value (body_title (example_put t))
                  else metadata_title (hd (files example_db))),
               contentType = None\<rparr>]" for t
    using replace_title [where ctor = ObjectId and req = "example_put t" and i = "Oid 161"
        and d = example_db and f = "hd (files example_db)" and fs = "[]"
        and upl = example_file] pre c(1) c(2) example_find f
    by blast
  have t1: "truthy (body_title (example_put (Some ''Trip'')))"
    "str_value (body_title (example_put (Some ''Trip''))) = ''Trip''"
    "\<not> truthy (body_title (example_put None))"
    by (simp_all add: example_put_def body_title_def req_file_def truthy_def str_value_def)
  have rest: "filter (\<lambda>g. file_id g \<noteq> Oid 161) (files example_db) = []"
    "metadata_title (hd (files example_db)) = ''Holiday''"
    by (simp_all add: example_db_def)
  show ?thesis
    using w [of "Some ''Trip''"] w [of None]
    by (simp add: t1 rest c)
qed

section \<open>Deletion (C7)\<close>




end
